theory Spec2Isabelle
  imports Main
begin

section \<open>The i18n bundle module (packages/base/src/i18nBundle.ts)\<close>

subsection \<open>Data model\<close>

text \<open>
  Objects created with \<open>new\<close> live in an explicit store; a reference is the index of
  the object in that store, so that reference equality of the source is equality of
  references here.
\<close>

type_synonym ref = nat

text \<open>The type \<open>I18nText\<close>: a key and its default text.\<close>

record I18nText =
  key :: string
  defaultText :: string

text \<open>
  What a caller can pass as \<open>textObj\<close>: nothing (\<open>undefined\<close> or \<open>null\<close>), a bare
  string, or a key/defaultText pair. A falsy key is the empty string.
\<close>

datatype text_arg = TextUndefined | TextString string | TextObject I18nText

text \<open>The class \<open>I18nBundle\<close>: its only field is \<open>packageName\<close>.\<close>

record I18nBundle =
  packageName :: string

text \<open>
  The locale data of one package is a flat mapping from keys to translated strings; the
  asset registry holds one such mapping per package whose data is loaded.
\<close>

type_synonym locale_data = "string \<rightharpoonup> string"
type_synonym bundle_store = "string \<rightharpoonup> locale_data"

text \<open>
  The state the module works on. \<open>I18nBundleInstances\<close> and \<open>customGetI18nBundle\<close>
  are the two module-level variables of the source; \<open>objects\<close> is the store of the
  \<open>I18nBundle\<close> objects constructed so far; \<open>bundleData\<close> is the data held by the
  asset registry (read by \<open>getI18nBundleData\<close>, written by \<open>fetchI18nBundle\<close>);
  \<open>fetchRequests\<close> lists the packages for which \<open>fetchI18nBundle\<close> was called;
  \<open>console\<close> lists the messages given to \<open>console.warn\<close>. A custom getter is code
  of the caller: it is a function from the package name to the promise it returns, whose
  type \<open>'r\<close> is left open.
\<close>

record 'r module_state =
  I18nBundleInstances :: "string \<rightharpoonup> ref"
  customGetI18nBundle :: "(string \<Rightarrow> 'r) option"
  objects :: "I18nBundle list"
  bundleData :: bundle_store
  fetchRequests :: "string list"
  console :: "string list"

text \<open>The state when the module has just been loaded.\<close>

definition initial_state :: "'r module_state" where
  "initial_state =
     \<lparr>I18nBundleInstances = Map.empty, customGetI18nBundle = None, objects = [],
      bundleData = Map.empty, fetchRequests = [], console = []\<rparr>"

subsection \<open>getText\<close>

text \<open>
  Modelled from the spec: \<open>getI18nBundleData(packageName)\<close> belongs to the asset
  registry (asset-registries/i18n.js), which is not among the sources. It is the
  synchronous "get loaded data or undefined" call: the loaded data of the package, or
  \<open>undefined\<close> (here \<open>None\<close>).
\<close>

definition getI18nBundleData :: "'r module_state \<Rightarrow> string \<Rightarrow> locale_data option" where
  "getI18nBundleData s pkg = bundleData s pkg"

text \<open>
  The property read \<open>bundle[key]\<close>. The loaded data is a plain object: its own
  properties are the translations, and a key it does not hold itself is looked up in
  \<open>Object.prototype\<close>, whose members (functions, and the prototype itself for
  \<open>__proto__\<close>) are no strings. The read gives \<open>undefined\<close>, a string, or such an
  inherited member, here named by its key.
\<close>

datatype js_value = JsUndefined | JsString string | JsInherited string

definition objectPrototypeMembers :: "string list" where
  "objectPrototypeMembers =
     [''constructor'', ''hasOwnProperty'', ''isPrototypeOf'', ''propertyIsEnumerable'',
      ''toLocaleString'', ''toString'', ''valueOf'', ''__proto__'', ''__defineGetter__'',
      ''__defineSetter__'', ''__lookupGetter__'', ''__lookupSetter__'']"

definition getProperty :: "locale_data \<Rightarrow> string \<Rightarrow> js_value" where
  "getProperty d k =
     (case d k of
        Some v \<Rightarrow> JsString v
      | None \<Rightarrow> if k \<in> set objectPrototypeMembers then JsInherited k else JsUndefined)"

text \<open>
  Truthiness: \<open>undefined\<close> is falsy, a string is truthy exactly when it is not empty,
  a function or an object is truthy.
\<close>

fun truthy :: "js_value \<Rightarrow> bool" where
  "truthy JsUndefined = False"
| "truthy (JsString v) = (v \<noteq> [])"
| "truthy (JsInherited m) = True"

text \<open>The text of the warning, a template literal in the source.\<close>

definition notFoundWarning :: "string \<Rightarrow> string" where
  "notFoundWarning k =
     ''Key '' @ k @ '' not found in the i18n bundle, the default text will be used''"

text \<open>\<open>textObj.defaultText || textObj.key\<close>.\<close>

definition defaultOrKey :: "I18nText \<Rightarrow> string" where
  "defaultOrKey t = (if defaultText t \<noteq> [] then defaultText t else key t)"

text \<open>
  \<open>getText(textObj, ...params)\<close> of the bundle \<open>this\<close>. The message formatter
  \<open>formatMessage\<close> is not part of the module and is a parameter: it is given the
  message as the call computes it, a string or an inherited member, and returns a string
  (\<open>Inr\<close>) or raises an error (\<open>Inl\<close>), which is then the outcome of \<open>getText\<close>.
  The result is that outcome and the state after the call.
\<close>

definition getText ::
  "(js_value \<Rightarrow> 'p list \<Rightarrow> 'x + string) \<Rightarrow> I18nBundle \<Rightarrow> text_arg \<Rightarrow> 'p list \<Rightarrow>
     'r module_state \<Rightarrow> ('x + string) \<times> 'r module_state" where
  "getText formatMessage this textObj params s =
     (let textObj1 =
            (case textObj of
               TextString k \<Rightarrow> TextObject \<lparr>key = k, defaultText = k\<rparr>
             | _ \<Rightarrow> textObj)
      in case textObj1 of
           TextObject t \<Rightarrow>
             if key t = [] then (Inr [], s)
             else
               (let bundle = getI18nBundleData s (packageName this);
                    s1 = (case bundle of
                            Some d \<Rightarrow>
                              if \<not> truthy (getProperty d (key t))
                              then s\<lparr>console := console s @ [notFoundWarning (key t)]\<rparr>
                              else s
                          | None \<Rightarrow> s);
                    messageText =
                      (case bundle of
                         Some d \<Rightarrow>
                           if truthy (getProperty d (key t)) then getProperty d (key t)
                           else JsString (defaultOrKey t)
                       | None \<Rightarrow> JsString (defaultOrKey t))
                in (formatMessage messageText params, s1))
         | _ \<Rightarrow> (Inr [], s))"

subsection \<open>The registry of bundle instances\<close>

text \<open>
  \<open>getI18nBundleSync(packageName)\<close>: the registered instance if there is one;
  otherwise a new object is constructed (appended to the store, its reference is the
  next free index), registered and returned.
\<close>

definition getI18nBundleSync :: "string \<Rightarrow> 'r module_state \<Rightarrow> ref \<times> 'r module_state" where
  "getI18nBundleSync pkg s =
     (case I18nBundleInstances s pkg of
        Some r \<Rightarrow> (r, s)
      | None \<Rightarrow>
          (let i18nBundle = length (objects s)
           in (i18nBundle,
               s\<lparr>objects := objects s @ [\<lparr>packageName = pkg\<rparr>],
                 I18nBundleInstances := (I18nBundleInstances s)(pkg \<mapsto> i18nBundle)\<rparr>)))"

text \<open>\<open>registerCustomI18nBundleGetter(customGet)\<close> assigns the module variable.\<close>

definition registerCustomI18nBundleGetter ::
  "(string \<Rightarrow> 'r) \<Rightarrow> 'r module_state \<Rightarrow> 'r module_state" where
  "registerCustomI18nBundleGetter customGet s = s\<lparr>customGetI18nBundle := Some customGet\<rparr>"

text \<open>
  How the promise returned by \<open>getI18nBundle\<close> settles: it is the promise of the
  custom getter, or it is rejected with the error of the fetch, or it is fulfilled with
  a bundle instance.
\<close>

datatype ('r, 'e) bundle_promise = Delegated 'r | Rejected 'e | Fulfilled ref

text \<open>
  \<open>getI18nBundle(packageName)\<close>. The loader \<open>fetchI18nBundle\<close> of the asset
  registry is a parameter: from the package and the data held so far it gives the data
  held once the awaited promise is fulfilled, or the error it is rejected with. An
  awaited rejection ends the function, so \<open>getI18nBundleSync\<close> is not reached then.
  A call runs to its end before the next one starts: what other code does while the
  fetch is awaited is not modelled.
\<close>

definition getI18nBundle ::
  "(string \<Rightarrow> bundle_store \<Rightarrow> 'e + bundle_store) \<Rightarrow> string \<Rightarrow> 'r module_state \<Rightarrow>
     ('r, 'e) bundle_promise \<times> 'r module_state" where
  "getI18nBundle fetchI18nBundle pkg s =
     (case customGetI18nBundle s of
        Some customGet \<Rightarrow> (Delegated (customGet pkg), s)
      | None \<Rightarrow>
          (let s1 = s\<lparr>fetchRequests := fetchRequests s @ [pkg]\<rparr>
           in case fetchI18nBundle pkg (bundleData s) of
                Inl err \<Rightarrow> (Rejected err, s1)
              | Inr d \<Rightarrow>
                  (let (r, s2) = getI18nBundleSync pkg (s1\<lparr>bundleData := d\<rparr>)
                   in (Fulfilled r, s2))))"

subsection \<open>Sequences of calls\<close>

text \<open>
  The calls that can reach the state of the module, and the state after a sequence of
  them. \<open>getText\<close> is called on any bundle object, registered or not, since the class
  is exported.
\<close>

datatype ('r, 'p) api_call =
    CallGetText I18nBundle text_arg "'p list"
  | CallGetI18nBundleSync string
  | CallGetI18nBundle string
  | CallRegister "string \<Rightarrow> 'r"

fun isRegister :: "('r, 'p) api_call \<Rightarrow> bool" where
  "isRegister (CallRegister g) = True"
| "isRegister _ = False"

fun perform ::
  "(js_value \<Rightarrow> 'p list \<Rightarrow> 'x + string) \<Rightarrow> (string \<Rightarrow> bundle_store \<Rightarrow> 'e + bundle_store) \<Rightarrow>
     ('r, 'p) api_call \<Rightarrow> 'r module_state \<Rightarrow> 'r module_state" where
  "perform fm fe (CallGetText b t ps) s = snd (getText fm b t ps s)"
| "perform fm fe (CallGetI18nBundleSync pkg) s = snd (getI18nBundleSync pkg s)"
| "perform fm fe (CallGetI18nBundle pkg) s = snd (getI18nBundle fe pkg s)"
| "perform fm fe (CallRegister g) s = registerCustomI18nBundleGetter g s"

fun performAll ::
  "(js_value \<Rightarrow> 'p list \<Rightarrow> 'x + string) \<Rightarrow> (string \<Rightarrow> bundle_store \<Rightarrow> 'e + bundle_store) \<Rightarrow>
     ('r, 'p) api_call list \<Rightarrow> 'r module_state \<Rightarrow> 'r module_state" where
  "performAll fm fe [] s = s"
| "performAll fm fe (c # cs) s = performAll fm fe cs (perform fm fe c s)"

section \<open>The tree item (packages/main/src/TreeItemBase.ts)\<close>

subsection \<open>Data model\<close>

text \<open>
  \<open>TreeItemBase\<close> extends \<open>ListItem\<close>, whose source is not given; of its fields
  the tree item uses \<open>actionable\<close> and \<open>selected\<close>. The properties of the source
  whose names start with an underscore carry the prefix \<open>u_\<close> here. The slot
  \<open>items\<close> holds references to the child items.
\<close>

record ListItem =
  actionable :: bool
  selected :: bool

record TreeItemBase = ListItem +
  level :: int
  icon :: string
  showToggleButton :: bool
  expanded :: bool
  indeterminate :: bool
  hasChildren :: bool
  additionalTextState :: string
  accessibleName :: string
  u_toggleButtonEnd :: bool
  u_minimal :: bool
  u_setsize :: int
  u_posinset :: int
  accessibleRoleDescription :: "string option"
  u_fixed :: bool
  ariaHaspopup :: "string option"
  items :: "ref list"

text \<open>
  The event a handler receives: the key that was pressed and whether
  \<open>stopPropagation\<close> has been called on it.
\<close>

datatype key_code = ArrowLeft | ArrowRight | OtherKey

record ui_event =
  pressedKey :: key_code
  propagationStopped :: bool

text \<open>
  Modelled from the spec: \<open>isRight\<close> and \<open>isLeft\<close> belong to Keys.js, which is not
  among the sources; the spec speaks of the right-arrow key and the left-arrow key.
\<close>

definition isRight :: "ui_event \<Rightarrow> bool" where
  "isRight e = (pressedKey e = ArrowRight)"

definition isLeft :: "ui_event \<Rightarrow> bool" where
  "isLeft e = (pressedKey e = ArrowLeft)"

text \<open>
  Modelled from the spec: \<open>fireEvent\<close> belongs to the element base class, which is not
  among the sources; it emits a notification with a name, carrying the reference of the
  item. The notifications emitted so far are kept in a list, in order.
\<close>

record fired_event =
  eventName :: string
  detailItem :: ref

definition fireEvent :: "string \<Rightarrow> ref \<Rightarrow> fired_event list \<Rightarrow> fired_event list" where
  "fireEvent name item fired = fired @ [\<lparr>eventName = name, detailItem = item\<rparr>]"

subsection \<open>Derived properties\<close>

definition requiresToggleButton :: "TreeItemBase \<Rightarrow> bool" where
  "requiresToggleButton n =
     (if \<not> u_fixed n then (hasChildren n \<or> length (items n) > 0) else False)"

definition onBeforeRendering :: "TreeItemBase \<Rightarrow> TreeItemBase" where
  "onBeforeRendering n =
     (let n1 = n\<lparr>actionable := False\<rparr>
      in n1\<lparr>showToggleButton := requiresToggleButton n1\<rparr>)"

definition effectiveLevel :: "TreeItemBase \<Rightarrow> int" where
  "effectiveLevel n = level n - 1"

definition hasParent :: "TreeItemBase \<Rightarrow> bool" where
  "hasParent n = (level n > 1)"

definition u_toggleIconName :: "TreeItemBase \<Rightarrow> string" where
  "u_toggleIconName n =
     (if expanded n then ''navigation-down-arrow'' else ''navigation-right-arrow'')"

definition u_showToggleButtonBeginning :: "TreeItemBase \<Rightarrow> bool" where
  "u_showToggleButtonBeginning n =
     (showToggleButton n \<and> \<not> u_minimal n \<and> \<not> u_toggleButtonEnd n)"

definition u_showToggleButtonEnd :: "TreeItemBase \<Rightarrow> bool" where
  "u_showToggleButtonEnd n = (showToggleButton n \<and> \<not> u_minimal n \<and> u_toggleButtonEnd n)"

subsection \<open>Methods and handlers\<close>

text \<open>
  A method runs on the item \<open>this\<close> (a reference, which the emitted notifications
  carry) whose properties are \<open>n\<close>; it returns the properties after the call and,
  for a handler, the notifications it emitted.
\<close>

definition toggle :: "TreeItemBase \<Rightarrow> TreeItemBase" where
  "toggle n = n\<lparr>expanded := \<not> expanded n\<rparr>"

definition u_toggleClick ::
  "ui_event \<Rightarrow> ref \<Rightarrow> TreeItemBase \<Rightarrow> ui_event \<times> TreeItemBase \<times> fired_event list" where
  "u_toggleClick e this n =
     (e\<lparr>propagationStopped := True\<rparr>, n, fireEvent ''toggle'' this [])"

text \<open>
  \<open>super._onkeydown(e)\<close>: the handler of \<open>ListItem\<close> is a parameter. It works on
  the fields of \<open>ListItem\<close> and may emit notifications of its own.
\<close>

definition super_onkeydown ::
  "(ui_event \<Rightarrow> ref \<Rightarrow> ListItem \<Rightarrow> ListItem \<times> fired_event list) \<Rightarrow>
     ui_event \<Rightarrow> ref \<Rightarrow> TreeItemBase \<Rightarrow> TreeItemBase \<times> fired_event list" where
  "super_onkeydown inherited e this n =
     (let (b, fired) = inherited e this (ListItem.truncate n)
      in (n\<lparr>actionable := actionable b, selected := selected b\<rparr>, fired))"

definition u_onkeydown ::
  "(ui_event \<Rightarrow> ref \<Rightarrow> ListItem \<Rightarrow> ListItem \<times> fired_event list) \<Rightarrow>
     ui_event \<Rightarrow> ref \<Rightarrow> TreeItemBase \<Rightarrow> TreeItemBase \<times> fired_event list" where
  "u_onkeydown inherited e this n =
     (let (n1, fired0) = super_onkeydown inherited e this n;
          fired1 =
            (if \<not> u_fixed n1 \<and> showToggleButton n1 \<and> isRight e
             then (if \<not> expanded n1 then fireEvent ''toggle'' this fired0
                   else fireEvent ''step-in'' this fired0)
             else fired0);
          fired2 =
            (if \<not> u_fixed n1 \<and> isLeft e
             then (if expanded n1 then fireEvent ''toggle'' this fired1
                   else if hasParent n1 then fireEvent ''step-out'' this fired1
                   else fired1)
             else fired1)
      in (n1, fired2))"

section \<open>Notions used in the statements\<close>

text \<open>
  The key a call of \<open>getText\<close> asks for, once a bare string is read as a key, and the
  text the call falls back to; both are empty when no text object is given.
\<close>

fun requestedKey :: "text_arg \<Rightarrow> string" where
  "requestedKey TextUndefined = []"
| "requestedKey (TextString k) = k"
| "requestedKey (TextObject t) = key t"

fun requestedDefault :: "text_arg \<Rightarrow> string" where
  "requestedDefault TextUndefined = []"
| "requestedDefault (TextString k) = k"
| "requestedDefault (TextObject t) = defaultOrKey t"

text \<open>
  The read of a key finds nothing but an inherited member: the data does not hold the
  key itself and \<open>Object.prototype\<close> has a member of that name.
\<close>

definition readsInherited :: "locale_data \<Rightarrow> string \<Rightarrow> bool" where
  "readsInherited d k = (d k = None \<and> k \<in> set objectPrototypeMembers)"

text \<open>
  The \<open>toggle\<close>, \<open>step-in\<close> and \<open>step-out\<close> notifications among those emitted, in
  order; and an inherited key handler that emits none of the three.
\<close>

definition navigationEvents :: "fired_event list \<Rightarrow> fired_event list" where
  "navigationEvents fired =
     filter (\<lambda>ev. eventName ev \<in> {''toggle'', ''step-in'', ''step-out''}) fired"

definition quietInherited ::
  "(ui_event \<Rightarrow> ref \<Rightarrow> ListItem \<Rightarrow> ListItem \<times> fired_event list) \<Rightarrow> bool" where
  "quietInherited inherited =
     (\<forall>e this b. navigationEvents (snd (inherited e this b)) = [])"

section \<open>Concrete inputs for the examples\<close>

text \<open>
  A formatter that appends the values to the text and raises an error when the text is
  no string, a loader that registers one fixed entry for the package, a loader that
  fails, a custom getter with a fixed result, the locale data of a package and a state
  in which it is loaded, an inherited key handler that selects the item and announces a
  press, and a tree item with the default values of its properties.
\<close>

definition appendFormat :: "js_value \<Rightarrow> string list \<Rightarrow> string + string" where
  "appendFormat text values =
     (case text of
        JsString t \<Rightarrow> Inr (t @ concat values)
      | _ \<Rightarrow> Inl ''TypeError'')"

definition greetingLoader :: "string \<Rightarrow> bundle_store \<Rightarrow> string + bundle_store" where
  "greetingLoader pkg store = Inr (store(pkg \<mapsto> [''GREETING'' \<mapsto> ''Hallo '']))"

definition failingLoader :: "string \<Rightarrow> bundle_store \<Rightarrow> string + bundle_store" where
  "failingLoader pkg store = Inl ''not found''"

definition constGetter :: "nat \<Rightarrow> string \<Rightarrow> nat" where
  "constGetter n pkg = n"

definition greetingData :: locale_data where
  "greetingData = [''GREETING'' \<mapsto> ''Hallo '', ''EMPTY'' \<mapsto> []]"

definition loadedState :: "nat module_state" where
  "loadedState = initial_state\<lparr>bundleData := [''pkg-a'' \<mapsto> greetingData]\<rparr>"

definition pressInherited :: "ui_event \<Rightarrow> ref \<Rightarrow> ListItem \<Rightarrow> ListItem \<times> fired_event list" where
  "pressInherited e this b =
     (b\<lparr>selected := True\<rparr>, [\<lparr>eventName = ''_press'', detailItem = this\<rparr>])"

definition keydown :: "key_code \<Rightarrow> ui_event" where
  "keydown k = \<lparr>pressedKey = k, propagationStopped = False\<rparr>"

definition sampleItem :: TreeItemBase where
  "sampleItem =
     \<lparr>actionable = True, selected = False, level = 1, icon = [], showToggleButton = False,
      expanded = False, indeterminate = False, hasChildren = False,
      additionalTextState = ''None'', accessibleName = [], u_toggleButtonEnd = False,
      u_minimal = False, u_setsize = 1, u_posinset = 1, accessibleRoleDescription = None,
      u_fixed = False, ariaHaspopup = None, items = []\<rparr>"

section \<open>Properties of the i18n bundle module\<close>

subsection \<open>What a call leaves unchanged\<close>

lemma falsy_getProperty:
  "\<not> truthy (getProperty d k) \<longleftrightarrow>
     d k = Some [] \<or> (d k = None \<and> k \<notin> set objectPrototypeMembers)"
  by (cases "d k") (simp_all add: getProperty_def)

lemma perform_instances:
  "I18nBundleInstances s q = Some r \<Longrightarrow> I18nBundleInstances (perform fm fe c s) q = Some r"
  by (cases c)
     (auto simp: getText_def getI18nBundleSync_def getI18nBundle_def
        registerCustomI18nBundleGetter_def Let_def
        split: text_arg.splits option.splits sum.splits prod.splits)

lemma performAll_instances:
  "I18nBundleInstances s q = Some r \<Longrightarrow> I18nBundleInstances (performAll fm fe cs s) q = Some r"
  by (induction cs arbitrary: s) (auto simp: perform_instances)

lemma perform_objects: "\<exists>ys. objects (perform fm fe c s) = objects s @ ys"
  by (cases c)
     (auto simp: getText_def getI18nBundleSync_def getI18nBundle_def
        registerCustomI18nBundleGetter_def Let_def
        split: text_arg.splits option.splits sum.splits prod.splits)

lemma performAll_objects: "\<exists>ys. objects (performAll fm fe cs s) = objects s @ ys"
proof (induction cs arbitrary: s)
  case Nil
  show ?case by simp
next
  case (Cons c cs)
  obtain ys where 1: "objects (perform fm fe c s) = objects s @ ys"
    using perform_objects by blast
  obtain zs where 2:
    "objects (performAll fm fe cs (perform fm fe c s)) = objects (perform fm fe c s) @ zs"
    using Cons.IH by blast
  show ?case using 1 2 by simp
qed

lemma perform_custom:
  "\<not> isRegister c \<Longrightarrow> customGetI18nBundle (perform fm fe c s) = customGetI18nBundle s"
  by (cases c)
     (auto simp: getText_def getI18nBundleSync_def getI18nBundle_def Let_def
        split: text_arg.splits option.splits sum.splits prod.splits)

lemma performAll_custom:
  "\<forall>c \<in> set cs. \<not> isRegister c \<Longrightarrow>
     customGetI18nBundle (performAll fm fe cs s) = customGetI18nBundle s"
  by (induction cs arbitrary: s) (auto simp: perform_custom)

lemma performAll_append:
  "performAll fm fe (xs @ ys) s = performAll fm fe ys (performAll fm fe xs s)"
  by (induction xs arbitrary: s) auto

lemma getI18nBundleSync_registers:
  "I18nBundleInstances (snd (getI18nBundleSync pkg s)) pkg = Some (fst (getI18nBundleSync pkg s))"
  by (cases "I18nBundleInstances s pkg") (simp_all add: getI18nBundleSync_def Let_def)

subsection \<open>getText\<close>

text \<open>
  A key that the loaded data does not hold itself but \<open>Object.prototype\<close> supplies
  (\<open>constructor\<close>, \<open>toString\<close>, ...) reads as truthy: nothing is warned, and the
  formatter is given the inherited member, which is no string. The statements on the
  resolved message and on the warning below are about the other keys.
\<close>

lemma getText_inherited_member:
  assumes "key t \<noteq> []"
    and "bundleData s (packageName this) = Some d"
    and "readsInherited d (key t)"
  shows "getText fm this (TextObject t) ps s = (fm (JsInherited (key t)) ps, s)"
  using assms
  by (simp add: getText_def getI18nBundleData_def getProperty_def readsInherited_def)

lemma getText_fallback:
  assumes "key t \<noteq> []"
    and "\<not> (\<exists>d v. bundleData s (packageName this) = Some d \<and> d (key t) = Some v \<and> v \<noteq> [])"
    and "\<not> (\<exists>d. bundleData s (packageName this) = Some d \<and> readsInherited d (key t))"
  shows "fst (getText fm this (TextObject t) ps s) = fm (JsString (defaultOrKey t)) ps"
proof (cases "bundleData s (packageName this)")
  case None
  then show ?thesis using assms(1) by (simp add: getText_def getI18nBundleData_def)
next
  case (Some d)
  have "d (key t) = Some [] \<or> (d (key t) = None \<and> key t \<notin> set objectPrototypeMembers)"
    using assms(2,3) Some by (cases "d (key t)") (auto simp: readsInherited_def)
  then have "\<not> truthy (getProperty d (key t))"
    by (simp add: falsy_getProperty)
  then show ?thesis
    using assms(1) Some by (simp add: getText_def getI18nBundleData_def Let_def)
qed

text \<open>
  Claim C1, as amended. For every call \<open>getText(textObj, ...params)\<close>: a bare string
  key \<open>k\<close> is read as the pair with key \<open>k\<close> and default text \<open>k\<close>; if \<open>textObj\<close>
  is absent or its key is empty, the result is the empty string, no error is raised and
  the state is as before; otherwise, for a key that the loaded data holds itself or that
  is not the name of a member of \<open>Object.prototype\<close>, the result is the formatter
  applied to the resolved message and the parameters, where the resolved message is the
  translated string of the key in the loaded locale data of the bundle's package when
  there is one and it is not empty, else the default text when it is not empty, else
  the key.
\<close>

theorem getText_resolution:
  "getText fm this (TextString k) ps s =
     getText fm this (TextObject \<lparr>key = k, defaultText = k\<rparr>) ps s
   \<and> getText fm this TextUndefined ps s = (Inr [], s)
   \<and> (key t = [] \<longrightarrow> getText fm this (TextObject t) ps s = (Inr [], s))
   \<and> (key t \<noteq> [] \<and> bundleData s (packageName this) = Some d \<and> d (key t) = Some v \<and> v \<noteq> []
        \<longrightarrow> fst (getText fm this (TextObject t) ps s) = fm (JsString v) ps)
   \<and> (key t \<noteq> []
        \<and> \<not> (\<exists>d v. bundleData s (packageName this) = Some d \<and> d (key t) = Some v \<and> v \<noteq> [])
        \<and> \<not> (\<exists>d. bundleData s (packageName this) = Some d \<and> readsInherited d (key t))
        \<and> defaultText t \<noteq> []
        \<longrightarrow> fst (getText fm this (TextObject t) ps s) = fm (JsString (defaultText t)) ps)
   \<and> (key t \<noteq> []
        \<and> \<not> (\<exists>d v. bundleData s (packageName this) = Some d \<and> d (key t) = Some v \<and> v \<noteq> [])
        \<and> \<not> (\<exists>d. bundleData s (packageName this) = Some d \<and> readsInherited d (key t))
        \<and> defaultText t = []
        \<longrightarrow> fst (getText fm this (TextObject t) ps s) = fm (JsString (key t)) ps)"
proof -
  have bare: "getText fm this (TextString k) ps s =
     getText fm this (TextObject \<lparr>key = k, defaultText = k\<rparr>) ps s"
    by (simp add: getText_def)
  have absent: "getText fm this TextUndefined ps s = (Inr [], s)"
    by (simp add: getText_def)
  have nokey: "key t = [] \<longrightarrow> getText fm this (TextObject t) ps s = (Inr [], s)"
    by (simp add: getText_def)
  have translated:
    "key t \<noteq> [] \<and> bundleData s (packageName this) = Some d \<and> d (key t) = Some v \<and> v \<noteq> []
       \<longrightarrow> fst (getText fm this (TextObject t) ps s) = fm (JsString v) ps"
    by (simp add: getText_def getI18nBundleData_def getProperty_def)
  have fallback:
    "key t \<noteq> []
       \<and> \<not> (\<exists>d v. bundleData s (packageName this) = Some d \<and> d (key t) = Some v \<and> v \<noteq> [])
       \<and> \<not> (\<exists>d. bundleData s (packageName this) = Some d \<and> readsInherited d (key t))
       \<longrightarrow> fst (getText fm this (TextObject t) ps s) = fm (JsString (defaultOrKey t)) ps"
    using getText_fallback by blast
  show ?thesis
    using bare absent nokey translated fallback by (simp add: defaultOrKey_def)
qed

text \<open>
  The calls of the spec's scenarios: a translated key, a missing key with a default text,
  a missing key without one, and a call without a key.
\<close>

theorem getText_resolution_witness:
  "fst (getText appendFormat \<lparr>packageName = ''pkg-a''\<rparr>
          (TextObject \<lparr>key = ''GREETING'', defaultText = ''Hello ''\<rparr>) [''World''] loadedState)
     = Inr ''Hallo World''
   \<and> fst (getText appendFormat \<lparr>packageName = ''pkg-a''\<rparr>
          (TextObject \<lparr>key = ''MISSING'', defaultText = ''Fallback''\<rparr>) [] loadedState)
     = Inr ''Fallback''
   \<and> fst (getText appendFormat \<lparr>packageName = ''pkg-a''\<rparr>
          (TextObject \<lparr>key = ''MISSING'', defaultText = []\<rparr>) [] loadedState)
     = Inr ''MISSING''
   \<and> getText appendFormat \<lparr>packageName = ''pkg-a''\<rparr>
          (TextObject \<lparr>key = [], defaultText = ''Fallback''\<rparr>) [] loadedState
     = (Inr [], loadedState)"
proof -
  have data: "bundleData loadedState (packageName \<lparr>packageName = ''pkg-a''\<rparr>) =
      Some greetingData"
    by (simp add: loadedState_def initial_state_def)
  have own: "\<not> readsInherited greetingData ''MISSING''"
    by (simp add: readsInherited_def objectPrototypeMembers_def)
  have 1: "fst (getText appendFormat \<lparr>packageName = ''pkg-a''\<rparr>
          (TextObject \<lparr>key = ''GREETING'', defaultText = ''Hello ''\<rparr>) [''World''] loadedState)
     = appendFormat (JsString ''Hallo '') [''World'']"
    using getText_resolution
      [of appendFormat "\<lparr>packageName = ''pkg-a''\<rparr>" _ "[''World'']" loadedState
          "\<lparr>key = ''GREETING'', defaultText = ''Hello ''\<rparr>"
          "greetingData" "''Hallo ''"]
      data
    by (simp add: greetingData_def)
  have 2: "fst (getText appendFormat \<lparr>packageName = ''pkg-a''\<rparr>
          (TextObject \<lparr>key = ''MISSING'', defaultText = ''Fallback''\<rparr>) [] loadedState)
     = appendFormat (JsString ''Fallback'') []"
    using getText_resolution
      [of appendFormat "\<lparr>packageName = ''pkg-a''\<rparr>" _ "[]" loadedState
          "\<lparr>key = ''MISSING'', defaultText = ''Fallback''\<rparr>"]
      data own
    by (simp add: greetingData_def)
  have 3: "fst (getText appendFormat \<lparr>packageName = ''pkg-a''\<rparr>
          (TextObject \<lparr>key = ''MISSING'', defaultText = []\<rparr>) [] loadedState)
     = appendFormat (JsString ''MISSING'') []"
    using getText_resolution
      [of appendFormat "\<lparr>packageName = ''pkg-a''\<rparr>" _ "[]" loadedState
          "\<lparr>key = ''MISSING'', defaultText = []\<rparr>"]
      data own
    by (simp add: greetingData_def)
  have 4: "getText appendFormat \<lparr>packageName = ''pkg-a''\<rparr>
          (TextObject \<lparr>key = [], defaultText = ''Fallback''\<rparr>) [] loadedState
     = (Inr [], loadedState)"
    using getText_resolution
      [of appendFormat "\<lparr>packageName = ''pkg-a''\<rparr>" _ "[]" loadedState
          "\<lparr>key = [], defaultText = ''Fallback''\<rparr>"]
    by simp
  show ?thesis using 1 2 3 4 by (simp add: appendFormat_def)
qed

text \<open>
  Claim C1 as it is written fails where the loaded data holds the key with an empty
  translation: the translated string is present and is empty, so the claim gives the
  formatted empty string, while the call returns the formatted default text. It also
  fails for the key \<open>constructor\<close>, which the data lacks: the claim gives the formatted
  default text, while the formatter is given the inherited member.
\<close>

theorem getText_resolution_counterexample:
  "bundleData loadedState ''pkg-a'' = Some greetingData
   \<and> greetingData ''EMPTY'' = Some []
   \<and> fst (getText appendFormat \<lparr>packageName = ''pkg-a''\<rparr>
          (TextObject \<lparr>key = ''EMPTY'', defaultText = ''Fallback''\<rparr>) [] loadedState)
       = Inr ''Fallback''
   \<and> appendFormat (JsString []) [] \<noteq> Inr ''Fallback''
   \<and> greetingData ''constructor'' = None
   \<and> fst (getText appendFormat \<lparr>packageName = ''pkg-a''\<rparr>
          (TextObject \<lparr>key = ''constructor'', defaultText = ''Fallback''\<rparr>) [] loadedState)
       = Inl ''TypeError''
   \<and> appendFormat (JsString ''Fallback'') [] \<noteq> Inl ''TypeError''"
  by (simp add: getText_def getI18nBundleData_def getProperty_def objectPrototypeMembers_def
      loadedState_def initial_state_def greetingData_def appendFormat_def defaultOrKey_def)

text \<open>
  Claim C2, as amended. A call of \<open>getText\<close> leaves the state as it was or adds one
  warning for the requested key to the console, and changes nothing else: no bundle
  state changes. For a key K that the loaded data holds itself or that is not the name
  of a member of \<open>Object.prototype\<close>, it emits exactly one warning, with the text
  "Key K not found in the i18n bundle, the default text will be used", if and only if
  the call gives a non-empty key and locale data for the bundle's package is loaded but
  has no non-empty translation of the key (the key is missing from it or mapped to the
  empty string); the call then returns the formatted default text. In every other case
  nothing is emitted.
\<close>

theorem getText_warning:
  "(snd (getText fm this textObj ps s) = s
      \<or> snd (getText fm this textObj ps s) =
          s\<lparr>console := console s @ [notFoundWarning (requestedKey textObj)]\<rparr>)
   \<and> (\<not> (\<exists>d. bundleData s (packageName this) = Some d
              \<and> readsInherited d (requestedKey textObj)) \<longrightarrow>
        getText fm this textObj ps s =
          (if requestedKey textObj \<noteq> []
              \<and> (\<exists>d. bundleData s (packageName this) = Some d
                     \<and> (d (requestedKey textObj) = None \<or> d (requestedKey textObj) = Some []))
           then (fm (JsString (requestedDefault textObj)) ps,
                 s\<lparr>console := console s @ [notFoundWarning (requestedKey textObj)]\<rparr>)
           else (fst (getText fm this textObj ps s), s)))"
proof (cases textObj)
  case TextUndefined
  then show ?thesis by (simp add: getText_def)
next
  case (TextString k)
  then show ?thesis
    by (cases "bundleData s (packageName this)")
       (auto simp: getText_def getI18nBundleData_def Let_def getProperty_def
          readsInherited_def defaultOrKey_def split: option.splits)
next
  case (TextObject t)
  then show ?thesis
    by (cases "bundleData s (packageName this)")
       (auto simp: getText_def getI18nBundleData_def Let_def getProperty_def
          readsInherited_def split: option.splits)
qed

text \<open>
  The spec's scenario of a missing key (one warning, the default text), and a call for
  a translated key (no warning).
\<close>

theorem getText_warning_witness:
  "getText appendFormat \<lparr>packageName = ''pkg-a''\<rparr>
       (TextObject \<lparr>key = ''MISSING'', defaultText = ''Fallback''\<rparr>) [] loadedState
     = (Inr ''Fallback'',
        loadedState\<lparr>console :=
          [''Key MISSING not found in the i18n bundle, the default text will be used'']\<rparr>)
   \<and> snd (getText appendFormat \<lparr>packageName = ''pkg-a''\<rparr>
       (TextObject \<lparr>key = ''GREETING'', defaultText = ''Hello ''\<rparr>) [''World''] loadedState)
     = loadedState"
proof -
  have data: "bundleData loadedState ''pkg-a'' = Some greetingData"
    by (simp add: loadedState_def initial_state_def)
  have quiet: "console loadedState = []"
    by (simp add: loadedState_def initial_state_def)
  have own: "\<not> readsInherited greetingData ''MISSING''"
    "\<not> readsInherited greetingData ''GREETING''"
    by (simp_all add: readsInherited_def objectPrototypeMembers_def)
  have 1: "getText appendFormat \<lparr>packageName = ''pkg-a''\<rparr>
       (TextObject \<lparr>key = ''MISSING'', defaultText = ''Fallback''\<rparr>) [] loadedState
     = (appendFormat (JsString ''Fallback'') [],
        loadedState\<lparr>console := console loadedState @ [notFoundWarning ''MISSING'']\<rparr>)"
    using getText_warning
      [of appendFormat "\<lparr>packageName = ''pkg-a''\<rparr>"
          "TextObject \<lparr>key = ''MISSING'', defaultText = ''Fallback''\<rparr>" "[]" loadedState]
      data own
    by (simp add: defaultOrKey_def greetingData_def)
  have "getText appendFormat \<lparr>packageName = ''pkg-a''\<rparr>
       (TextObject \<lparr>key = ''GREETING'', defaultText = ''Hello ''\<rparr>) [''World''] loadedState
     = (fst (getText appendFormat \<lparr>packageName = ''pkg-a''\<rparr>
          (TextObject \<lparr>key = ''GREETING'', defaultText = ''Hello ''\<rparr>) [''World''] loadedState),
        loadedState)"
    using getText_warning
      [of appendFormat "\<lparr>packageName = ''pkg-a''\<rparr>"
          "TextObject \<lparr>key = ''GREETING'', defaultText = ''Hello ''\<rparr>" "[''World'']" loadedState]
      data own
    by (simp add: greetingData_def)
  then have 2: "snd (getText appendFormat \<lparr>packageName = ''pkg-a''\<rparr>
       (TextObject \<lparr>key = ''GREETING'', defaultText = ''Hello ''\<rparr>) [''World''] loadedState)
     = loadedState"
    by (metis snd_conv)
  show ?thesis using 1 2 quiet by (simp add: appendFormat_def notFoundWarning_def)
qed

text \<open>
  Claim C2 as it is written fails in the "only if" direction: the loaded data does not
  lack the key \<open>EMPTY\<close> (it maps it to the empty string), and the warning is emitted
  all the same. It also fails in the "if" direction: the loaded data lacks the key
  \<open>toString\<close>, and no warning is emitted.
\<close>

theorem getText_warning_counterexample:
  "bundleData loadedState ''pkg-a'' = Some greetingData
   \<and> ''EMPTY'' \<in> dom greetingData
   \<and> console loadedState = []
   \<and> console (snd (getText appendFormat \<lparr>packageName = ''pkg-a''\<rparr>
        (TextObject \<lparr>key = ''EMPTY'', defaultText = ''Fallback''\<rparr>) [] loadedState))
       = [''Key EMPTY not found in the i18n bundle, the default text will be used'']
   \<and> ''toString'' \<notin> dom greetingData
   \<and> console (snd (getText appendFormat \<lparr>packageName = ''pkg-a''\<rparr>
        (TextObject \<lparr>key = ''toString'', defaultText = ''Fallback''\<rparr>) [] loadedState))
       = []"
  by (simp add: getText_def getI18nBundleData_def getProperty_def objectPrototypeMembers_def
      loadedState_def initial_state_def greetingData_def notFoundWarning_def)

text \<open>
  Claim C9. \<open>getText\<close> decides whether a key is present by the truthiness of the
  stored value and not by membership: when the loaded locale data of the package maps
  the (non-empty) key to the empty string, the missing-key warning is emitted and the
  result is the formatted default text, or the formatted key when the default text is
  empty, and not the formatted empty translation.
\<close>

theorem getText_empty_translation:
  assumes "key t \<noteq> []"
    and "bundleData s (packageName this) = Some d"
    and "d (key t) = Some []"
  shows "getText formatMessage this (TextObject t) params s =
           (formatMessage (JsString (if defaultText t \<noteq> [] then defaultText t else key t))
              params,
            s\<lparr>console := console s @ [notFoundWarning (key t)]\<rparr>)"
  using assms
  by (simp add: getText_def getI18nBundleData_def getProperty_def defaultOrKey_def)

theorem getText_empty_translation_witness:
  "''EMPTY'' \<noteq> []
   \<and> bundleData loadedState (packageName \<lparr>packageName = ''pkg-a''\<rparr>) =
       Some greetingData
   \<and> greetingData ''EMPTY'' = Some []
   \<and> getText appendFormat \<lparr>packageName = ''pkg-a''\<rparr>
        (TextObject \<lparr>key = ''EMPTY'', defaultText = ''Fallback''\<rparr>) [''World''] loadedState =
      (Inr ''FallbackWorld'',
       loadedState\<lparr>console :=
         [''Key EMPTY not found in the i18n bundle, the default text will be used'']\<rparr>)
   \<and> appendFormat (JsString []) [''World''] \<noteq> Inr ''FallbackWorld''"
proof -
  have data: "bundleData loadedState (packageName \<lparr>packageName = ''pkg-a''\<rparr>) =
      Some greetingData"
    by (simp add: loadedState_def initial_state_def)
  have quiet: "console loadedState = []"
    by (simp add: loadedState_def initial_state_def)
  have "getText appendFormat \<lparr>packageName = ''pkg-a''\<rparr>
        (TextObject \<lparr>key = ''EMPTY'', defaultText = ''Fallback''\<rparr>) [''World''] loadedState =
      (appendFormat (JsString ''Fallback'') [''World''],
       loadedState\<lparr>console := console loadedState @ [notFoundWarning ''EMPTY'']\<rparr>)"
    using getText_empty_translation
      [of "\<lparr>key = ''EMPTY'', defaultText = ''Fallback''\<rparr>" loadedState
          "\<lparr>packageName = ''pkg-a''\<rparr>" "greetingData"
          appendFormat "[''World'']"]
      data
    by (simp add: greetingData_def)
  then show ?thesis
    using data quiet by (simp add: appendFormat_def notFoundWarning_def greetingData_def)
qed

subsection \<open>The registry and the custom getter\<close>

text \<open>
  Claim C3. For every package name P, a call of \<open>getI18nBundleSync(P)\<close> in a state
  whose registry has no entry for P constructs a new \<open>I18nBundle\<close> object with package
  name P, enters its reference in the registry and returns it; after any call, every
  later call for P, whatever calls of the module come in between, returns the same
  reference and constructs nothing, and the object still has package name P; and no
  call of the module removes or replaces an entry of the registry.
\<close>

theorem getI18nBundleSync_stable:
  "(I18nBundleInstances s pkg = None \<longrightarrow>
      fst (getI18nBundleSync pkg s) = length (objects s)
      \<and> objects (snd (getI18nBundleSync pkg s)) = objects s @ [\<lparr>packageName = pkg\<rparr>]
      \<and> I18nBundleInstances (snd (getI18nBundleSync pkg s)) =
          (I18nBundleInstances s)(pkg \<mapsto> length (objects s))
      \<and> (\<forall>cs. objects (performAll fm fe cs (snd (getI18nBundleSync pkg s)))
                 ! fst (getI18nBundleSync pkg s) = \<lparr>packageName = pkg\<rparr>))
   \<and> (\<forall>cs. getI18nBundleSync pkg (performAll fm fe cs (snd (getI18nBundleSync pkg s))) =
             (fst (getI18nBundleSync pkg s),
              performAll fm fe cs (snd (getI18nBundleSync pkg s))))
   \<and> (\<forall>cs q r. I18nBundleInstances s q = Some r \<longrightarrow>
             I18nBundleInstances (performAll fm fe cs s) q = Some r)"
proof (intro conjI impI allI)
  assume n: "I18nBundleInstances s pkg = None"
  show r: "fst (getI18nBundleSync pkg s) = length (objects s)"
    using n by (simp add: getI18nBundleSync_def Let_def)
  show o: "objects (snd (getI18nBundleSync pkg s)) = objects s @ [\<lparr>packageName = pkg\<rparr>]"
    using n by (simp add: getI18nBundleSync_def Let_def)
  show "I18nBundleInstances (snd (getI18nBundleSync pkg s)) =
          (I18nBundleInstances s)(pkg \<mapsto> length (objects s))"
    using n by (simp add: getI18nBundleSync_def Let_def)
  fix cs
  obtain ys where
    "objects (performAll fm fe cs (snd (getI18nBundleSync pkg s))) =
       objects (snd (getI18nBundleSync pkg s)) @ ys"
    using performAll_objects by blast
  then show "objects (performAll fm fe cs (snd (getI18nBundleSync pkg s)))
                 ! fst (getI18nBundleSync pkg s) = \<lparr>packageName = pkg\<rparr>"
    using r o by (simp add: nth_append)
next
  fix cs
  have "I18nBundleInstances (performAll fm fe cs (snd (getI18nBundleSync pkg s))) pkg =
          Some (fst (getI18nBundleSync pkg s))"
    using getI18nBundleSync_registers by (rule performAll_instances)
  then show "getI18nBundleSync pkg (performAll fm fe cs (snd (getI18nBundleSync pkg s))) =
             (fst (getI18nBundleSync pkg s),
              performAll fm fe cs (snd (getI18nBundleSync pkg s)))"
    by (simp add: getI18nBundleSync_def)
next
  fix cs q r
  assume "I18nBundleInstances s q = Some r"
  then show "I18nBundleInstances (performAll fm fe cs s) q = Some r"
    by (rule performAll_instances)
qed

text \<open>
  Two packages are requested in turn on the fresh module: the first object gets the
  reference 0, and asking again for the first package after other calls gives 0 again.
\<close>

theorem getI18nBundleSync_stable_witness:
  "I18nBundleInstances (initial_state :: nat module_state) ''pkg-a'' = None
   \<and> fst (getI18nBundleSync ''pkg-a'' (initial_state :: nat module_state)) = 0
   \<and> objects (snd (getI18nBundleSync ''pkg-a'' (initial_state :: nat module_state))) =
       [\<lparr>packageName = ''pkg-a''\<rparr>]
   \<and> fst (getI18nBundleSync ''pkg-a''
        (performAll appendFormat greetingLoader
           [CallGetI18nBundleSync ''pkg-b'', CallGetI18nBundle ''pkg-a'',
            CallGetText \<lparr>packageName = ''pkg-a''\<rparr> (TextString ''MISSING'') []]
           (snd (getI18nBundleSync ''pkg-a'' (initial_state :: nat module_state))))) = 0"
proof -
  have fresh: "I18nBundleInstances (initial_state :: nat module_state) ''pkg-a'' = None"
    by (simp add: initial_state_def)
  have empty: "objects (initial_state :: nat module_state) = []"
    by (simp add: initial_state_def)
  note inst = getI18nBundleSync_stable
    [of "initial_state :: nat module_state" "''pkg-a''" appendFormat greetingLoader]
  have 1: "fst (getI18nBundleSync ''pkg-a'' (initial_state :: nat module_state)) = 0"
    using inst fresh empty by simp
  have 2: "objects (snd (getI18nBundleSync ''pkg-a'' (initial_state :: nat module_state))) =
       [\<lparr>packageName = ''pkg-a''\<rparr>]"
    using inst fresh empty by simp
  have "getI18nBundleSync ''pkg-a''
        (performAll appendFormat greetingLoader
           [CallGetI18nBundleSync ''pkg-b'', CallGetI18nBundle ''pkg-a'',
            CallGetText \<lparr>packageName = ''pkg-a''\<rparr> (TextString ''MISSING'') []]
           (snd (getI18nBundleSync ''pkg-a'' (initial_state :: nat module_state)))) =
        (fst (getI18nBundleSync ''pkg-a'' (initial_state :: nat module_state)),
         performAll appendFormat greetingLoader
           [CallGetI18nBundleSync ''pkg-b'', CallGetI18nBundle ''pkg-a'',
            CallGetText \<lparr>packageName = ''pkg-a''\<rparr> (TextString ''MISSING'') []]
           (snd (getI18nBundleSync ''pkg-a'' (initial_state :: nat module_state))))"
    using inst by blast
  then have 3: "fst (getI18nBundleSync ''pkg-a''
        (performAll appendFormat greetingLoader
           [CallGetI18nBundleSync ''pkg-b'', CallGetI18nBundle ''pkg-a'',
            CallGetText \<lparr>packageName = ''pkg-a''\<rparr> (TextString ''MISSING'') []]
           (snd (getI18nBundleSync ''pkg-a'' (initial_state :: nat module_state))))) = 0"
    using 1 by (metis fst_conv)
  show ?thesis using fresh 1 2 3 by blast
qed

text \<open>
  Claim C4. Once \<open>registerCustomI18nBundleGetter\<close> has been called, the getter
  registered last is the one in force, for every package: after any calls, a registration
  of \<open>g\<close> and any further calls that register nothing, \<open>getI18nBundle(P)\<close> returns
  what \<open>g\<close> returns for P and leaves the state as it was, so that, whatever the loader,
  no fetch is requested, no bundle is constructed and the registry is not touched. When
  no custom getter is registered, \<open>getI18nBundle(P)\<close> requests the fetch, and when the
  fetch is fulfilled it returns what \<open>getI18nBundleSync(P)\<close> returns on the state with
  the fetched data (the registered instance or a new one); when the fetch is rejected,
  the rejection is the outcome.
\<close>

theorem getI18nBundle_paths:
  "((\<forall>c \<in> set later. \<not> isRegister c) \<longrightarrow>
      getI18nBundle fe' pkg (performAll fm fe (earlier @ CallRegister g # later) s) =
        (Delegated (g pkg), performAll fm fe (earlier @ CallRegister g # later) s))
   \<and> (customGetI18nBundle s = None \<longrightarrow>
        getI18nBundle fe pkg s =
          (case fe pkg (bundleData s) of
             Inl err \<Rightarrow> (Rejected err, s\<lparr>fetchRequests := fetchRequests s @ [pkg]\<rparr>)
           | Inr d \<Rightarrow>
               (Fulfilled
                  (fst (getI18nBundleSync pkg
                     (s\<lparr>fetchRequests := fetchRequests s @ [pkg], bundleData := d\<rparr>))),
                snd (getI18nBundleSync pkg
                     (s\<lparr>fetchRequests := fetchRequests s @ [pkg], bundleData := d\<rparr>)))))"
proof (intro conjI impI)
  assume nr: "\<forall>c \<in> set later. \<not> isRegister c"
  define s1 where "s1 = performAll fm fe earlier s"
  have "performAll fm fe (earlier @ CallRegister g # later) s =
          performAll fm fe later (registerCustomI18nBundleGetter g s1)"
    by (simp add: performAll_append s1_def)
  moreover have
    "customGetI18nBundle (performAll fm fe later (registerCustomI18nBundleGetter g s1)) =
       customGetI18nBundle (registerCustomI18nBundleGetter g s1)"
    using nr by (rule performAll_custom)
  ultimately have
    "customGetI18nBundle (performAll fm fe (earlier @ CallRegister g # later) s) = Some g"
    by (simp add: registerCustomI18nBundleGetter_def)
  then show "getI18nBundle fe' pkg (performAll fm fe (earlier @ CallRegister g # later) s) =
        (Delegated (g pkg), performAll fm fe (earlier @ CallRegister g # later) s)"
    by (simp add: getI18nBundle_def)
next
  assume "customGetI18nBundle s = None"
  then show "getI18nBundle fe pkg s =
          (case fe pkg (bundleData s) of
             Inl err \<Rightarrow> (Rejected err, s\<lparr>fetchRequests := fetchRequests s @ [pkg]\<rparr>)
           | Inr d \<Rightarrow>
               (Fulfilled
                  (fst (getI18nBundleSync pkg
                     (s\<lparr>fetchRequests := fetchRequests s @ [pkg], bundleData := d\<rparr>))),
                snd (getI18nBundleSync pkg
                     (s\<lparr>fetchRequests := fetchRequests s @ [pkg], bundleData := d\<rparr>))))"
    by (simp add: getI18nBundle_def Let_def split: sum.splits prod.splits)
qed

text \<open>
  On the fresh module a bundle is fetched, two getters are registered and another
  bundle is created; a request for a third package then gets the result of the second
  getter, and the only fetch ever requested is the first one. Without a getter, the
  request on the fresh module is fulfilled with the reference 0 after one fetch, and
  rejected when the loader fails.
\<close>

theorem getI18nBundle_paths_witness:
  "fst (getI18nBundle failingLoader ''pkg-b''
          (performAll appendFormat greetingLoader
             ([CallGetI18nBundle ''pkg-a'', CallRegister (constGetter 1)]
                @ CallRegister (constGetter 2) # [CallGetI18nBundleSync ''pkg-c''])
             initial_state)) = Delegated 2
   \<and> fetchRequests (snd (getI18nBundle failingLoader ''pkg-b''
          (performAll appendFormat greetingLoader
             ([CallGetI18nBundle ''pkg-a'', CallRegister (constGetter 1)]
                @ CallRegister (constGetter 2) # [CallGetI18nBundleSync ''pkg-c''])
             initial_state))) = [''pkg-a'']
   \<and> fst (getI18nBundle greetingLoader ''pkg-a'' (initial_state :: nat module_state)) =
       Fulfilled 0
   \<and> fetchRequests (snd (getI18nBundle greetingLoader ''pkg-a''
       (initial_state :: nat module_state))) = [''pkg-a'']
   \<and> fst (getI18nBundle failingLoader ''pkg-a'' (initial_state :: nat module_state)) =
       Rejected ''not found''"
proof -
  have "\<forall>c \<in> set [CallGetI18nBundleSync ''pkg-c'' :: (nat, string) api_call]. \<not> isRegister c"
    by simp
  then have d: "getI18nBundle failingLoader ''pkg-b''
          (performAll appendFormat greetingLoader
             ([CallGetI18nBundle ''pkg-a'', CallRegister (constGetter 1)]
                @ CallRegister (constGetter 2) # [CallGetI18nBundleSync ''pkg-c''])
             initial_state) =
        (Delegated (constGetter 2 ''pkg-b''),
         performAll appendFormat greetingLoader
             ([CallGetI18nBundle ''pkg-a'', CallRegister (constGetter 1)]
                @ CallRegister (constGetter 2) # [CallGetI18nBundleSync ''pkg-c''])
             initial_state)"
    using getI18nBundle_paths
      [of "[CallGetI18nBundleSync ''pkg-c'']" failingLoader "''pkg-b''" appendFormat
          greetingLoader "[CallGetI18nBundle ''pkg-a'', CallRegister (constGetter 1)]"
          "constGetter 2" initial_state]
    by blast
  have f: "fetchRequests (performAll appendFormat greetingLoader
             ([CallGetI18nBundle ''pkg-a'', CallRegister (constGetter 1)]
                @ CallRegister (constGetter 2) # [CallGetI18nBundleSync ''pkg-c''])
             (initial_state :: nat module_state)) = [''pkg-a'']"
    by (simp add: getI18nBundle_def getI18nBundleSync_def registerCustomI18nBundleGetter_def
        initial_state_def greetingLoader_def Let_def)
  have none: "customGetI18nBundle (initial_state :: nat module_state) = None"
    by (simp add: initial_state_def)
  have g: "getI18nBundle greetingLoader ''pkg-a'' (initial_state :: nat module_state) =
      (Fulfilled (fst (getI18nBundleSync ''pkg-a''
          ((initial_state :: nat module_state)
             \<lparr>fetchRequests := fetchRequests (initial_state :: nat module_state) @ [''pkg-a''],
               bundleData := (bundleData (initial_state :: nat module_state))
                               (''pkg-a'' \<mapsto> [''GREETING'' \<mapsto> ''Hallo ''])\<rparr>))),
       snd (getI18nBundleSync ''pkg-a''
          ((initial_state :: nat module_state)
             \<lparr>fetchRequests := fetchRequests (initial_state :: nat module_state) @ [''pkg-a''],
               bundleData := (bundleData (initial_state :: nat module_state))
                               (''pkg-a'' \<mapsto> [''GREETING'' \<mapsto> ''Hallo ''])\<rparr>)))"
    using getI18nBundle_paths
      [of "[]" greetingLoader "''pkg-a''" appendFormat greetingLoader "[]" "constGetter 0"
          "initial_state :: nat module_state"]
      none
    by (simp add: greetingLoader_def)
  have r: "getI18nBundle failingLoader ''pkg-a'' (initial_state :: nat module_state) =
      (Rejected ''not found'',
       (initial_state :: nat module_state)
         \<lparr>fetchRequests := fetchRequests (initial_state :: nat module_state) @ [''pkg-a'']\<rparr>)"
    using getI18nBundle_paths
      [of "[]" failingLoader "''pkg-a''" appendFormat failingLoader "[]" "constGetter 0"
          "initial_state :: nat module_state"]
      none
    by (simp add: failingLoader_def)
  have d1: "fst (getI18nBundle failingLoader ''pkg-b''
          (performAll appendFormat greetingLoader
             ([CallGetI18nBundle ''pkg-a'', CallRegister (constGetter 1)]
                @ CallRegister (constGetter 2) # [CallGetI18nBundleSync ''pkg-c''])
             initial_state)) = Delegated 2"
    by (subst d) (simp add: constGetter_def)
  have d2: "fetchRequests (snd (getI18nBundle failingLoader ''pkg-b''
          (performAll appendFormat greetingLoader
             ([CallGetI18nBundle ''pkg-a'', CallRegister (constGetter 1)]
                @ CallRegister (constGetter 2) # [CallGetI18nBundleSync ''pkg-c''])
             initial_state))) = [''pkg-a'']"
    by (subst d) (simp only: snd_conv f)
  have g1: "fst (getI18nBundle greetingLoader ''pkg-a'' (initial_state :: nat module_state)) =
       Fulfilled 0"
    by (subst g) (simp add: getI18nBundleSync_def initial_state_def Let_def)
  have g2: "fetchRequests (snd (getI18nBundle greetingLoader ''pkg-a''
       (initial_state :: nat module_state))) = [''pkg-a'']"
    by (subst g) (simp add: getI18nBundleSync_def initial_state_def Let_def)
  have r1: "fst (getI18nBundle failingLoader ''pkg-a'' (initial_state :: nat module_state)) =
       Rejected ''not found''"
    by (subst r) simp
  show ?thesis using d1 d2 g1 g2 r1 by blast
qed

section \<open>Properties of the tree item\<close>

subsection \<open>What the key handler emits\<close>

lemma u_onkeydown_node:
  "fst (u_onkeydown inherited e this n) = fst (super_onkeydown inherited e this n)"
  by (simp add: u_onkeydown_def Let_def split: prod.splits)

lemma super_onkeydown_fields:
  "expanded (fst (super_onkeydown inherited e this n)) = expanded n"
  "u_fixed (fst (super_onkeydown inherited e this n)) = u_fixed n"
  "showToggleButton (fst (super_onkeydown inherited e this n)) = showToggleButton n"
  "level (fst (super_onkeydown inherited e this n)) = level n"
  "snd (super_onkeydown inherited e this n) = snd (inherited e this (ListItem.truncate n))"
  by (simp_all add: super_onkeydown_def Let_def split: prod.splits)

text \<open>
  The notifications of the handler are those of the inherited handler followed by at
  most one of its own, which depends on the key and on the properties of the item.
\<close>

lemma u_onkeydown_fired:
  "snd (u_onkeydown inherited e this n) =
     snd (inherited e this (ListItem.truncate n)) @
       (if u_fixed n then []
        else if pressedKey e = ArrowRight \<and> showToggleButton n
          then [\<lparr>eventName = if expanded n then ''step-in'' else ''toggle'', detailItem = this\<rparr>]
        else if pressedKey e = ArrowLeft \<and> expanded n
          then [\<lparr>eventName = ''toggle'', detailItem = this\<rparr>]
        else if pressedKey e = ArrowLeft \<and> level n > 1
          then [\<lparr>eventName = ''step-out'', detailItem = this\<rparr>]
        else [])"
proof -
  obtain n1 f0 where s: "super_onkeydown inherited e this n = (n1, f0)"
    by (cases "super_onkeydown inherited e this n")
  have f: "expanded n1 = expanded n" "u_fixed n1 = u_fixed n"
    "showToggleButton n1 = showToggleButton n" "level n1 = level n"
    "f0 = snd (inherited e this (ListItem.truncate n))"
    using super_onkeydown_fields[of inherited e this n] s by simp_all
  show ?thesis
    by (cases "pressedKey e")
       (simp_all add: u_onkeydown_def s f(1-4) f(5)[symmetric] isRight_def isLeft_def
          fireEvent_def hasParent_def)
qed

lemma navigationEvents_append:
  "navigationEvents (xs @ ys) = navigationEvents xs @ navigationEvents ys"
  by (simp add: navigationEvents_def)

lemma navigationEvents_single:
  "navigationEvents [\<lparr>eventName = ''toggle'', detailItem = r\<rparr>] =
     [\<lparr>eventName = ''toggle'', detailItem = r\<rparr>]"
  "navigationEvents [\<lparr>eventName = ''step-in'', detailItem = r\<rparr>] =
     [\<lparr>eventName = ''step-in'', detailItem = r\<rparr>]"
  "navigationEvents [\<lparr>eventName = ''step-out'', detailItem = r\<rparr>] =
     [\<lparr>eventName = ''step-out'', detailItem = r\<rparr>]"
  "navigationEvents [] = []"
  by (simp_all add: navigationEvents_def)

lemma quietInherited_nav:
  "quietInherited inherited \<Longrightarrow> navigationEvents (snd (inherited e this b)) = []"
  by (simp add: quietInherited_def)

lemma pressInherited_quiet: "quietInherited pressInherited"
  by (simp add: quietInherited_def pressInherited_def navigationEvents_def)

text \<open>
  Claim C5. On a right-arrow keydown, with an inherited handler that emits no
  \<open>toggle\<close>, \<open>step-in\<close> or \<open>step-out\<close> of its own: if \<open>_fixed\<close> is false and
  \<open>showToggleButton\<close> is true, then for a collapsed item exactly one \<open>toggle\<close>,
  carrying the item, is emitted and no \<open>step-in\<close>, and \<open>expanded\<close> is as before; for
  an expanded item exactly one \<open>step-in\<close> is emitted and no \<open>toggle\<close>. If \<open>_fixed\<close>
  is true or \<open>showToggleButton\<close> is false, neither is emitted.
\<close>

theorem right_arrow_events:
  assumes "quietInherited inherited" and "pressedKey e = ArrowRight"
  shows "(\<not> u_fixed n \<and> showToggleButton n \<and> \<not> expanded n \<longrightarrow>
            navigationEvents (snd (u_onkeydown inherited e this n)) =
              [\<lparr>eventName = ''toggle'', detailItem = this\<rparr>]
            \<and> expanded (fst (u_onkeydown inherited e this n)) = expanded n)
       \<and> (\<not> u_fixed n \<and> showToggleButton n \<and> expanded n \<longrightarrow>
            navigationEvents (snd (u_onkeydown inherited e this n)) =
              [\<lparr>eventName = ''step-in'', detailItem = this\<rparr>]
            \<and> expanded (fst (u_onkeydown inherited e this n)) = expanded n)
       \<and> (u_fixed n \<or> \<not> showToggleButton n \<longrightarrow>
            navigationEvents (snd (u_onkeydown inherited e this n)) = [])"
  using assms
  by (simp add: u_onkeydown_fired u_onkeydown_node super_onkeydown_fields(1)
      navigationEvents_append navigationEvents_single quietInherited_nav)

text \<open>
  The spec's two scenarios on the item 7, then a fixed item and an item without toggle
  button; the inherited handler announces a press each time.
\<close>

theorem right_arrow_events_witness:
  "quietInherited pressInherited
   \<and> pressedKey (keydown ArrowRight) = ArrowRight
   \<and> snd (u_onkeydown pressInherited (keydown ArrowRight) 7
            (sampleItem\<lparr>showToggleButton := True\<rparr>)) =
       [\<lparr>eventName = ''_press'', detailItem = 7\<rparr>, \<lparr>eventName = ''toggle'', detailItem = 7\<rparr>]
   \<and> navigationEvents (snd (u_onkeydown pressInherited (keydown ArrowRight) 7
            (sampleItem\<lparr>showToggleButton := True\<rparr>))) =
       [\<lparr>eventName = ''toggle'', detailItem = 7\<rparr>]
   \<and> expanded (fst (u_onkeydown pressInherited (keydown ArrowRight) 7
            (sampleItem\<lparr>showToggleButton := True\<rparr>))) = False
   \<and> navigationEvents (snd (u_onkeydown pressInherited (keydown ArrowRight) 7
            (sampleItem\<lparr>showToggleButton := True, expanded := True\<rparr>))) =
       [\<lparr>eventName = ''step-in'', detailItem = 7\<rparr>]
   \<and> navigationEvents (snd (u_onkeydown pressInherited (keydown ArrowRight) 7
            (sampleItem\<lparr>showToggleButton := True, u_fixed := True\<rparr>))) = []
   \<and> navigationEvents (snd (u_onkeydown pressInherited (keydown ArrowRight) 7 sampleItem)) = []"
proof -
  have k: "pressedKey (keydown ArrowRight) = ArrowRight"
    by (simp add: keydown_def)
  note inst = right_arrow_events [OF pressInherited_quiet k, of _ 7]
  have 0: "snd (u_onkeydown pressInherited (keydown ArrowRight) 7
            (sampleItem\<lparr>showToggleButton := True\<rparr>)) =
       [\<lparr>eventName = ''_press'', detailItem = 7\<rparr>, \<lparr>eventName = ''toggle'', detailItem = 7\<rparr>]"
    by (simp add: u_onkeydown_fired pressInherited_def keydown_def sampleItem_def)
  have 1: "navigationEvents (snd (u_onkeydown pressInherited (keydown ArrowRight) 7
            (sampleItem\<lparr>showToggleButton := True\<rparr>))) =
       [\<lparr>eventName = ''toggle'', detailItem = 7\<rparr>]
     \<and> expanded (fst (u_onkeydown pressInherited (keydown ArrowRight) 7
            (sampleItem\<lparr>showToggleButton := True\<rparr>))) = False"
    using inst [of "sampleItem\<lparr>showToggleButton := True\<rparr>"] by (simp add: sampleItem_def)
  have 2: "navigationEvents (snd (u_onkeydown pressInherited (keydown ArrowRight) 7
            (sampleItem\<lparr>showToggleButton := True, expanded := True\<rparr>))) =
       [\<lparr>eventName = ''step-in'', detailItem = 7\<rparr>]"
    using inst [of "sampleItem\<lparr>showToggleButton := True, expanded := True\<rparr>"]
    by (simp add: sampleItem_def)
  have 3: "navigationEvents (snd (u_onkeydown pressInherited (keydown ArrowRight) 7
            (sampleItem\<lparr>showToggleButton := True, u_fixed := True\<rparr>))) = []"
    using inst [of "sampleItem\<lparr>showToggleButton := True, u_fixed := True\<rparr>"]
    by (simp add: sampleItem_def)
  have 4: "navigationEvents (snd (u_onkeydown pressInherited (keydown ArrowRight) 7 sampleItem)) = []"
    using inst [of sampleItem] by (simp add: sampleItem_def)
  show ?thesis using pressInherited_quiet k 0 1 2 3 4 by blast
qed

text \<open>
  Claim C6. On a left-arrow keydown with \<open>_fixed\<close> false, and an inherited handler
  that emits no \<open>toggle\<close>, \<open>step-in\<close> or \<open>step-out\<close> of its own: for an expanded
  item exactly one \<open>toggle\<close> is emitted and no \<open>step-out\<close>; for a collapsed item of a
  level above 1 exactly one \<open>step-out\<close> and no \<open>toggle\<close>; for a collapsed item of
  level 1 neither. For an item with \<open>_fixed\<close> true, none of \<open>toggle\<close>, \<open>step-in\<close>
  and \<open>step-out\<close> is emitted, whatever the key.
\<close>

theorem left_arrow_events:
  assumes "quietInherited inherited"
  shows "(pressedKey e = ArrowLeft \<and> \<not> u_fixed n \<and> expanded n \<longrightarrow>
            navigationEvents (snd (u_onkeydown inherited e this n)) =
              [\<lparr>eventName = ''toggle'', detailItem = this\<rparr>])
       \<and> (pressedKey e = ArrowLeft \<and> \<not> u_fixed n \<and> \<not> expanded n \<and> level n > 1 \<longrightarrow>
            navigationEvents (snd (u_onkeydown inherited e this n)) =
              [\<lparr>eventName = ''step-out'', detailItem = this\<rparr>])
       \<and> (pressedKey e = ArrowLeft \<and> \<not> u_fixed n \<and> \<not> expanded n \<and> level n = 1 \<longrightarrow>
            navigationEvents (snd (u_onkeydown inherited e this n)) = [])
       \<and> (u_fixed n \<longrightarrow> navigationEvents (snd (u_onkeydown inherited e this n)) = [])"
  using assms
  by (simp add: u_onkeydown_fired navigationEvents_append navigationEvents_single
      quietInherited_nav)

theorem left_arrow_events_witness:
  "quietInherited pressInherited
   \<and> navigationEvents (snd (u_onkeydown pressInherited (keydown ArrowLeft) 7
            (sampleItem\<lparr>expanded := True\<rparr>))) =
       [\<lparr>eventName = ''toggle'', detailItem = 7\<rparr>]
   \<and> navigationEvents (snd (u_onkeydown pressInherited (keydown ArrowLeft) 7
            (sampleItem\<lparr>level := 2\<rparr>))) =
       [\<lparr>eventName = ''step-out'', detailItem = 7\<rparr>]
   \<and> navigationEvents (snd (u_onkeydown pressInherited (keydown ArrowLeft) 7 sampleItem)) = []
   \<and> navigationEvents (snd (u_onkeydown pressInherited (keydown ArrowLeft) 7
            (sampleItem\<lparr>expanded := True, u_fixed := True\<rparr>))) = []
   \<and> navigationEvents (snd (u_onkeydown pressInherited (keydown ArrowRight) 7
            (sampleItem\<lparr>showToggleButton := True, u_fixed := True\<rparr>))) = []"
proof -
  note inst = left_arrow_events [OF pressInherited_quiet, of _ _ 7]
  have 1: "navigationEvents (snd (u_onkeydown pressInherited (keydown ArrowLeft) 7
            (sampleItem\<lparr>expanded := True\<rparr>))) =
       [\<lparr>eventName = ''toggle'', detailItem = 7\<rparr>]"
    using inst [of "keydown ArrowLeft" "sampleItem\<lparr>expanded := True\<rparr>"]
    by (simp add: sampleItem_def keydown_def)
  have 2: "navigationEvents (snd (u_onkeydown pressInherited (keydown ArrowLeft) 7
            (sampleItem\<lparr>level := 2\<rparr>))) =
       [\<lparr>eventName = ''step-out'', detailItem = 7\<rparr>]"
    using inst [of "keydown ArrowLeft" "sampleItem\<lparr>level := 2\<rparr>"]
    by (simp add: sampleItem_def keydown_def)
  have 3: "navigationEvents (snd (u_onkeydown pressInherited (keydown ArrowLeft) 7 sampleItem)) = []"
    using inst [of "keydown ArrowLeft" sampleItem]
    by (simp add: sampleItem_def keydown_def)
  have 4: "navigationEvents (snd (u_onkeydown pressInherited (keydown ArrowLeft) 7
            (sampleItem\<lparr>expanded := True, u_fixed := True\<rparr>))) = []"
    using inst [of "keydown ArrowLeft" "sampleItem\<lparr>expanded := True, u_fixed := True\<rparr>"]
    by (simp add: sampleItem_def)
  have 5: "navigationEvents (snd (u_onkeydown pressInherited (keydown ArrowRight) 7
            (sampleItem\<lparr>showToggleButton := True, u_fixed := True\<rparr>))) = []"
    using inst [of "keydown ArrowRight" "sampleItem\<lparr>showToggleButton := True, u_fixed := True\<rparr>"]
    by (simp add: sampleItem_def)
  show ?thesis using pressInherited_quiet 1 2 3 4 5 by blast
qed

subsection \<open>The toggle button\<close>

text \<open>
  Claim C7. Pointer activation of the toggle button (\<open>_toggleClick\<close>) stops the
  propagation of the triggering event and emits exactly one notification, a \<open>toggle\<close>
  carrying the item; it leaves \<open>expanded\<close> and every other property of the item as
  it was. A direct call of \<open>toggle()\<close>, in contrast, flips \<open>expanded\<close> whatever the
  state of the item, and changes nothing else.
\<close>

theorem toggleClick_fires_toggle:
  "propagationStopped (fst (u_toggleClick e this n))
   \<and> pressedKey (fst (u_toggleClick e this n)) = pressedKey e
   \<and> fst (snd (u_toggleClick e this n)) = n
   \<and> snd (snd (u_toggleClick e this n)) = [\<lparr>eventName = ''toggle'', detailItem = this\<rparr>]
   \<and> expanded (toggle n) = (\<not> expanded n)
   \<and> toggle n = n\<lparr>expanded := \<not> expanded n\<rparr>
   \<and> toggle (toggle n) = n"
  by (simp add: u_toggleClick_def fireEvent_def toggle_def)

theorem toggleClick_fires_toggle_witness:
  "propagationStopped (fst (u_toggleClick (keydown OtherKey) 7 sampleItem))
   \<and> fst (snd (u_toggleClick (keydown OtherKey) 7 sampleItem)) = sampleItem
   \<and> snd (snd (u_toggleClick (keydown OtherKey) 7 sampleItem)) =
       [\<lparr>eventName = ''toggle'', detailItem = 7\<rparr>]
   \<and> expanded (toggle sampleItem)
   \<and> toggle (toggle sampleItem) = sampleItem"
proof -
  have collapsed: "\<not> expanded sampleItem"
    by (simp add: sampleItem_def)
  show ?thesis
    using toggleClick_fires_toggle [of "keydown OtherKey" 7 sampleItem] collapsed
    by blast
qed

text \<open>
  Claim C8, as amended. For every item, \<open>_toggleIconName\<close> is
  \<open>navigation-down-arrow\<close> when \<open>expanded\<close> is true and \<open>navigation-right-arrow\<close>
  when it is false; the toggle button is shown at the beginning iff
  \<open>showToggleButton && !_minimal && !_toggleButtonEnd\<close>, at the end iff
  \<open>showToggleButton && !_minimal && _toggleButtonEnd\<close>, and at neither position when
  \<open>_minimal\<close> is true.
\<close>

theorem toggle_display:
  "(expanded n \<longrightarrow> u_toggleIconName n = ''navigation-down-arrow'')
   \<and> (\<not> expanded n \<longrightarrow> u_toggleIconName n = ''navigation-right-arrow'')
   \<and> (u_showToggleButtonBeginning n \<longleftrightarrow>
        showToggleButton n \<and> \<not> u_minimal n \<and> \<not> u_toggleButtonEnd n)
   \<and> (u_showToggleButtonEnd n \<longleftrightarrow>
        showToggleButton n \<and> \<not> u_minimal n \<and> u_toggleButtonEnd n)
   \<and> (u_minimal n \<longrightarrow> \<not> u_showToggleButtonBeginning n \<and> \<not> u_showToggleButtonEnd n)"
  by (simp add: u_toggleIconName_def u_showToggleButtonBeginning_def u_showToggleButtonEnd_def)

theorem toggle_display_witness:
  "u_toggleIconName (sampleItem\<lparr>expanded := True\<rparr>) = ''navigation-down-arrow''
   \<and> u_toggleIconName sampleItem = ''navigation-right-arrow''
   \<and> u_showToggleButtonBeginning (sampleItem\<lparr>showToggleButton := True\<rparr>)
   \<and> u_showToggleButtonEnd (sampleItem\<lparr>showToggleButton := True, u_toggleButtonEnd := True\<rparr>)
   \<and> \<not> u_showToggleButtonBeginning (sampleItem\<lparr>showToggleButton := True, u_minimal := True\<rparr>)
   \<and> \<not> u_showToggleButtonEnd
         (sampleItem\<lparr>showToggleButton := True, u_toggleButtonEnd := True, u_minimal := True\<rparr>)"
  using toggle_display [of "sampleItem\<lparr>expanded := True\<rparr>"]
    toggle_display [of sampleItem]
    toggle_display [of "sampleItem\<lparr>showToggleButton := True\<rparr>"]
    toggle_display [of "sampleItem\<lparr>showToggleButton := True, u_toggleButtonEnd := True\<rparr>"]
    toggle_display [of "sampleItem\<lparr>showToggleButton := True, u_minimal := True\<rparr>"]
    toggle_display
      [of "sampleItem\<lparr>showToggleButton := True, u_toggleButtonEnd := True, u_minimal := True\<rparr>"]
  by (simp add: sampleItem_def)

text \<open>
  Claim C8 as it is written fails on the icon names: the source names the icons
  \<open>navigation-down-arrow\<close> and \<open>navigation-right-arrow\<close>, not \<open>collapse-icon\<close>
  and \<open>expand-icon\<close>.
\<close>

theorem toggle_display_counterexample:
  "expanded (sampleItem\<lparr>expanded := True\<rparr>)
   \<and> u_toggleIconName (sampleItem\<lparr>expanded := True\<rparr>) \<noteq> ''collapse-icon''
   \<and> \<not> expanded sampleItem
   \<and> u_toggleIconName sampleItem \<noteq> ''expand-icon''"
  by (simp add: u_toggleIconName_def sampleItem_def)

subsection \<open>Before rendering\<close>

text \<open>
  Claim C10. Every call of \<open>onBeforeRendering\<close> sets \<open>actionable\<close> to false and
  overwrites \<open>showToggleButton\<close> with \<open>requiresToggleButton\<close>, that is with
  \<open>!_fixed && (hasChildren || items.length > 0)\<close>, and changes nothing else; the result
  does not depend on the value \<open>showToggleButton\<close> had, so a value assigned from
  outside does not survive a render.
\<close>

theorem onBeforeRendering_overwrites:
  "actionable (onBeforeRendering n) = False
   \<and> showToggleButton (onBeforeRendering n) = requiresToggleButton n
   \<and> requiresToggleButton n = (\<not> u_fixed n \<and> (hasChildren n \<or> length (items n) > 0))
   \<and> onBeforeRendering (n\<lparr>showToggleButton := b\<rparr>) = onBeforeRendering n
   \<and> onBeforeRendering n = n\<lparr>actionable := False, showToggleButton := requiresToggleButton n\<rparr>"
  by (simp add: onBeforeRendering_def requiresToggleButton_def)

text \<open>
  An item without children loses a toggle button set from outside; an item with a child
  gets one, unless it is fixed.
\<close>

theorem onBeforeRendering_overwrites_witness:
  "showToggleButton (sampleItem\<lparr>showToggleButton := True\<rparr>)
   \<and> \<not> showToggleButton (onBeforeRendering (sampleItem\<lparr>showToggleButton := True\<rparr>))
   \<and> \<not> actionable (onBeforeRendering (sampleItem\<lparr>showToggleButton := True\<rparr>))
   \<and> showToggleButton (onBeforeRendering (sampleItem\<lparr>items := [8]\<rparr>))
   \<and> \<not> showToggleButton (onBeforeRendering (sampleItem\<lparr>items := [8], u_fixed := True\<rparr>))"
  using onBeforeRendering_overwrites [of "sampleItem\<lparr>showToggleButton := True\<rparr>"]
    onBeforeRendering_overwrites [of "sampleItem\<lparr>items := [8]\<rparr>"]
    onBeforeRendering_overwrites [of "sampleItem\<lparr>items := [8], u_fixed := True\<rparr>"]
  by (simp add: sampleItem_def)

end
